theory Spec2Isabelle
  imports Complex_Main "HOL-Library.Product_Lexorder" "HOL-Library.Multiset"
begin

section \<open>Data frames of the two tutorial notebooks\<close>

text \<open>
  A data frame is a list of rows. The columns of the e-commerce frame are those of
  \<^verbatim>\<open>01-preprocess\<close> after \<^verbatim>\<open>event_time\<close> has been dropped and
  \<^verbatim>\<open>user_session\<close> has been categorified to an integer. The three string columns have
  the type \<open>'c\<close>: it is \<open>string option\<close> in the raw frame (a missing value is \<open>None\<close>)
  and \<open>int\<close> once \<^verbatim>\<open>02-ETL-with-NVTabular\<close> has encoded them. Columns of dtype
  float64 are modelled by exact reals; a quotient whose divisor is zero is a value of
  its own where the source divides (see \<open>relative_price_to_avg_categ\<close>).
\<close>

record 'c event =
  user_session :: int
  event_type :: 'c
  product_id :: int
  category_id :: int
  category_code :: 'c
  brand :: 'c
  price :: real
  user_id :: int
  event_time_ts :: int

text \<open>The frame after the left merge with \<^verbatim>\<open>item_first_interaction_df\<close>: a join miss is a null.\<close>

record 'c event_first = "'c event" +
  prod_first_event_time_ts :: "int option"

text \<open>
  The rows that enter \<^verbatim>\<open>nvt.ops.Groupby\<close>: the encoded columns together with the
  derived feature columns of \<^verbatim>\<open>groupby_feats\<close>. \<^verbatim>\<open>event_time_dt\<close> is a datetime of
  second resolution, held as its epoch seconds.
\<close>

record 'c interaction = "'c event_first" +
  event_time_dt :: int
  et_dayofweek_sin :: real
  et_dayofweek_cos :: real
  price_log_norm :: real
  relative_price_to_avg_categ_id :: real
  product_recency_days_log_norm :: real

text \<open>
  The columns of the grouped frame. \<open>session_id\<close> is the column \<^verbatim>\<open>user_session\<close> of
  the grouped frame, \<open>product_id_count\<close> is \<^verbatim>\<open>product_id-count\<close>; the other names
  replace the separator \<^verbatim>\<open>-\<close> by an underscore.
\<close>

record session_base =
  session_id :: int
  product_id_count :: int

record session_agg = session_base +
  user_id_first :: int
  product_id_list :: "int list"
  category_code_list :: "int list"
  brand_list :: "int list"
  category_id_list :: "int list"
  event_time_ts_first :: int
  event_time_dt_first :: int
  et_dayofweek_sin_list :: "real list"
  et_dayofweek_cos_list :: "real list"
  price_log_norm_list :: "real list"
  relative_price_to_avg_categ_id_list :: "real list"
  product_recency_days_log_norm_list :: "real list"

record session_record = session_base +
  product_id_list_seq :: "int list"
  category_code_list_seq :: "int list"
  brand_list_seq :: "int list"
  category_id_list_seq :: "int list"
  et_dayofweek_sin_list_seq :: "real list"
  et_dayofweek_cos_list_seq :: "real list"
  price_log_norm_list_seq :: "real list"
  relative_price_to_avg_categ_id_list_seq :: "real list"
  product_recency_days_log_norm_list_seq :: "real list"
  day_index :: int

section \<open>Preliminary preprocessing\<close>

subsection \<open>Removing consecutive repeated interactions\<close>

text \<open>
  \<^verbatim>\<open>df.sort_values(['user_session', 'event_time_ts']).reset_index(drop=True)\<close>: the
  rows in ascending order of the pair (session, timestamp). Rows with equal keys keep
  their relative order here; no theorem below depends on how ties are ordered.
\<close>

definition sort_values :: "('c, 'a) event_scheme list \<Rightarrow> ('c, 'a) event_scheme list" where
  "sort_values df = sort_key (\<lambda>r. (user_session r, event_time_ts r)) df"

text \<open>\<^verbatim>\<open>col.shift(1).fillna(0)\<close>: every value moves down one row, the first row gets 0.\<close>

definition shift_fillna :: "int list \<Rightarrow> int list" where
  "shift_fillna col = take (length col) (0 # col)"

text \<open>
  The boolean column
  \<^verbatim>\<open>~((df['user_session'] == df['session_id_past']) & (df['product_id'] == df['product_id_past']))\<close>.
\<close>

definition repeat_mask :: "('c, 'a) event_scheme list \<Rightarrow> bool list" where
  "repeat_mask df =
     (let product_id_past = shift_fillna (map product_id df);
          session_id_past = shift_fillna (map user_session df)
      in map (\<lambda>(r, sp, pp). \<not> (user_session r = sp \<and> product_id r = pp))
             (zip df (zip session_id_past product_id_past)))"

text \<open>\<^verbatim>\<open>df[keep]\<close>: the rows whose entry in the boolean column is true.\<close>

definition boolean_index :: "'a list \<Rightarrow> bool list \<Rightarrow> 'a list" where
  "boolean_index df keep = map fst (filter snd (zip df keep))"

definition remove_consecutive_repeats ::
    "('c, 'a) event_scheme list \<Rightarrow> ('c, 'a) event_scheme list" where
  "remove_consecutive_repeats df0 =
     (let df = sort_values df0 in boolean_index df (repeat_mask df))"

text \<open>
  The reading of the removal by runs, written from the specification: two rows have the
  same key when session and item agree, and of every maximal run of rows with the same
  key only the first one stays.
\<close>

definition same_key :: "('c, 'a) event_scheme \<Rightarrow> ('c, 'a) event_scheme \<Rightarrow> bool" where
  "same_key x y \<longleftrightarrow> user_session x = user_session y \<and> product_id x = product_id y"

fun run_heads :: "('c, 'a) event_scheme list \<Rightarrow> ('c, 'a) event_scheme list" where
  "run_heads [] = []"
| "run_heads [x] = [x]"
| "run_heads (x # y # zs) =
     (if same_key x y then run_heads (x # zs) else x # run_heads (y # zs))"

text \<open>The removal as one pass that carries the session and item of the previous row.\<close>

fun dedup_from :: "int \<Rightarrow> int \<Rightarrow> ('c, 'a) event_scheme list \<Rightarrow> ('c, 'a) event_scheme list" where
  "dedup_from s p [] = []"
| "dedup_from s p (x # xs) =
     (if user_session x = s \<and> product_id x = p then [] else [x])
       @ dedup_from (user_session x) (product_id x) xs"

subsection \<open>The item first-seen timestamp\<close>

text \<open>The minimum of a column; an empty column has none.\<close>

fun col_min :: "int list \<Rightarrow> int option" where
  "col_min [] = None"
| "col_min (x # xs) = Some (fold min xs x)"

text \<open>
  \<^verbatim>\<open>df.groupby('product_id').agg({'event_time_ts': 'min'}).reset_index()\<close>: one row
  (item, minimum timestamp) for every item of the frame.
\<close>

definition item_first_interaction_df :: "('c, 'a) event_scheme list \<Rightarrow> (int \<times> int) list" where
  "item_first_interaction_df df =
     List.map_filter
       (\<lambda>p. map_option (Pair p) (col_min (map event_time_ts (filter (\<lambda>r. product_id r = p) df))))
       (remdups (map product_id df))"

text \<open>\<^verbatim>\<open>df.merge(item_first_interaction_df, on=['product_id'], how='left')\<close>.\<close>

definition merge_left :: "'c event list \<Rightarrow> (int \<times> int) list \<Rightarrow> 'c event_first list" where
  "merge_left df tbl =
     map (\<lambda>r. event.extend r (event_first.fields (map_of tbl (product_id r)))) df"

text \<open>
  \<^verbatim>\<open>df[df['event_time_dt'] < np.datetime64('2019-10-08')]\<close>; midnight of that day is
  1570492800 seconds after the epoch.
\<close>

definition first_week :: "('c, 'a) event_scheme list \<Rightarrow> ('c, 'a) event_scheme list" where
  "first_week df = filter (\<lambda>r. event_time_ts r < 1570492800) df"

text \<open>The cells from the removal of repeats to the frame that is written to parquet.\<close>

definition preprocess :: "'c event list \<Rightarrow> 'c event_first list" where
  "preprocess df0 =
     (let df = remove_consecutive_repeats df0
      in first_week (merge_left df (item_first_interaction_df df)))"

section \<open>Feature derivation of the ETL workflow\<close>

subsection \<open>Cyclical weekday features\<close>

definition get_cycled_feature_value_sin :: "real \<Rightarrow> real \<Rightarrow> real" where
  "get_cycled_feature_value_sin col max_value =
     (let value_scaled = (col + 0.000001) / max_value;
          value_sin = sin (2 * pi * value_scaled)
      in value_sin)"

definition get_cycled_feature_value_cos :: "real \<Rightarrow> real \<Rightarrow> real" where
  "get_cycled_feature_value_cos col max_value =
     (let value_scaled = (col + 0.000001) / max_value;
          value_cos = cos (2 * pi * value_scaled)
      in value_cos)"

definition weekday_sin :: "int \<Rightarrow> real" where
  "weekday_sin col = get_cycled_feature_value_sin (real_of_int (col + 1)) 7"

definition weekday_cos :: "int \<Rightarrow> real" where
  "weekday_cos col = get_cycled_feature_value_cos (real_of_int (col + 1)) 7"

text \<open>The pair of features of one weekday, and the Euclidean distance of two such pairs.\<close>

definition weekday_encoding :: "int \<Rightarrow> real \<times> real" where
  "weekday_encoding d = (weekday_sin d, weekday_cos d)"

definition euclidean :: "real \<times> real \<Rightarrow> real \<times> real \<Rightarrow> real" where
  "euclidean u v = sqrt ((fst u - fst v)\<^sup>2 + (snd u - snd v)\<^sup>2)"

subsection \<open>Item recency\<close>

text \<open>
  \<^verbatim>\<open>ItemRecency.transform\<close> on the column \<^verbatim>\<open>event_time_ts\<close>, row by row. The
  comparison \<^verbatim>\<open>delta_days >= 0\<close> is a boolean that the product reads as 1 or 0; a
  null first-seen timestamp gives a null.
\<close>

definition ItemRecency_transform :: "('c, 'a) event_first_scheme \<Rightarrow> real option" where
  "ItemRecency_transform r =
     (case prod_first_event_time_ts r of
        None \<Rightarrow> None
      | Some item_first_timestamp \<Rightarrow>
          (let col = event_time_ts r;
               delta_days = real_of_int (col - item_first_timestamp) / (60 * 60 * 24)
           in Some (delta_days * (if delta_days \<ge> 0 then 1 else 0))))"

subsection \<open>Price relative to the category average\<close>

text \<open>
  \<^verbatim>\<open>relative_price_to_avg_categ(col, gdf)\<close> for one row, \<open>col\<close> being the mean price
  of the row's category. The source divides before it multiplies by the mask
  \<^verbatim>\<open>(col > 0).astype(int)\<close>. Where the divisor \<open>col + epsilon\<close> is zero the float
  quotient is infinite or not a number, and its product with the mask is not a number:
  that result is \<open>None\<close>.
\<close>

definition relative_price_to_avg_categ :: "real \<Rightarrow> real \<Rightarrow> real option" where
  "relative_price_to_avg_categ col row_price =
     (let epsilon = 1 / 100000
      in if col + epsilon = 0 then None
         else Some (((row_price - col) / (col + epsilon)) * (if col > 0 then 1 else 0)))"

subsection \<open>Categorical encoding\<close>

text \<open>
  Modelled from the spec: the operator \<^verbatim>\<open>nvt.ops.Categorify\<close> is library code that is
  not part of the sources; the notebook only calls it with \<^verbatim>\<open>start_index=1\<close>. After
  section 4.2 of the specification the observed values get dense contiguous integers,
  and nulls get a reserved code for unknown values instead of being dropped. The
  reserved code is \<open>start_index\<close> itself and the observed values follow it, in the
  order of their first appearance in the fitted column.
\<close>

definition Categorify_fit :: "'a option list \<Rightarrow> 'a list" where
  "Categorify_fit col = remdups (List.map_filter id col)"

fun position :: "'a list \<Rightarrow> 'a \<Rightarrow> nat option" where
  "position [] v = None"
| "position (x # xs) v = (if x = v then Some 0 else map_option Suc (position xs v))"

definition Categorify :: "nat \<Rightarrow> 'a list \<Rightarrow> 'a option \<Rightarrow> nat" where
  "Categorify start_index vocab v =
     (case v of
        None \<Rightarrow> start_index
      | Some x \<Rightarrow> (case position vocab x of
                    None \<Rightarrow> start_index
                  | Some i \<Rightarrow> start_index + 1 + i))"

section \<open>Session aggregation and windowing of the ETL workflow\<close>

definition SESSIONS_MAX_LENGTH :: nat where
  "SESSIONS_MAX_LENGTH = 20"

definition MINIMUM_SESSION_LENGTH :: int where
  "MINIMUM_SESSION_LENGTH = 2"

text \<open>The rows of one session in the order of \<^verbatim>\<open>sort_cols=["event_time_ts"]\<close>.\<close>

definition session_rows ::
    "int \<Rightarrow> (int, 'a) interaction_scheme list \<Rightarrow> (int, 'a) interaction_scheme list" where
  "session_rows k df = sort_key event_time_ts (filter (\<lambda>r. user_session r = k) df)"

text \<open>
  Modelled from the spec: the operator \<^verbatim>\<open>nvt.ops.Groupby\<close> is library code that is
  not part of the sources; the notebook gives it the key, the sort column and the
  dictionary \<^verbatim>\<open>aggs\<close>. After section 4.3 of the specification an aggregate
  \<^verbatim>\<open>list\<close> holds one entry per row of the session in timestamp order, \<^verbatim>\<open>first\<close>
  is the value of the first of these rows and \<^verbatim>\<open>count\<close> is their number. A
  session without rows has no record.
\<close>

fun aggregate :: "int \<Rightarrow> (int, 'a) interaction_scheme list \<Rightarrow> session_agg list" where
  "aggregate k [] = []"
| "aggregate k (r # rs) =
     [\<lparr> session_id = k,
        product_id_count = int (length (r # rs)),
        user_id_first = user_id r,
        product_id_list = map product_id (r # rs),
        category_code_list = map category_code (r # rs),
        brand_list = map brand (r # rs),
        category_id_list = map category_id (r # rs),
        event_time_ts_first = event_time_ts r,
        event_time_dt_first = event_time_dt r,
        et_dayofweek_sin_list = map et_dayofweek_sin (r # rs),
        et_dayofweek_cos_list = map et_dayofweek_cos (r # rs),
        price_log_norm_list = map price_log_norm (r # rs),
        relative_price_to_avg_categ_id_list = map relative_price_to_avg_categ_id (r # rs),
        product_recency_days_log_norm_list = map product_recency_days_log_norm (r # rs) \<rparr>]"

definition groupby_features :: "(int, 'a) interaction_scheme list \<Rightarrow> session_agg list" where
  "groupby_features df =
     concat (map (\<lambda>k. aggregate k (session_rows k df)) (sort (remdups (map user_session df))))"

text \<open>
  Modelled from the spec: the operator \<^verbatim>\<open>nvt.ops.ListSlice\<close> is library code that is
  not part of the sources; the notebook calls it as
  \<^verbatim>\<open>ListSlice(0, SESSIONS_MAX_LENGTH, pad=True)\<close>. After section 4.4 of the
  specification it keeps the entries from \<open>start\<close> up to \<open>stop\<close> and pads on the right
  with the sentinel 0 up to the length \<open>stop - start\<close>.
\<close>

definition ListSlice :: "nat \<Rightarrow> nat \<Rightarrow> ('a::zero) list \<Rightarrow> 'a list" where
  "ListSlice start stop xs =
     (let ys = take (stop - start) (drop start xs)
      in ys @ replicate ((stop - start) - length ys) 0)"

text \<open>
  The window in the words of the specification: the first \<open>min(count, n)\<close> entries of a
  sequence, padded on the right with the sentinel 0 to exactly the length \<open>n\<close>.
\<close>

definition first_padded :: "nat \<Rightarrow> ('a::zero) list \<Rightarrow> 'a list" where
  "first_padded n xs = take (min (length xs) n) xs @ replicate (n - min (length xs) n) 0"

text \<open>
  The lambda of \<^verbatim>\<open>day_index\<close>, \<^verbatim>\<open>(col - col.min()).dt.days + 1\<close>, on the column
  \<^verbatim>\<open>event_time_dt-first\<close>: the difference is a time delta in seconds and
  \<^verbatim>\<open>.dt.days\<close> is its number of whole days. The column is that of the whole
  grouped frame, held in one partition, so that \<^verbatim>\<open>col.min()\<close> is the minimum over
  all sessions, also over those that the filter drops afterwards.
\<close>

definition day_index_op :: "int list \<Rightarrow> int list" where
  "day_index_op col =
     (case col_min col of
        None \<Rightarrow> []
      | Some m \<Rightarrow> map (\<lambda>t. (t - m) div 86400 + 1) col)"

definition groupby_features_trim :: "session_agg \<Rightarrow> int \<Rightarrow> session_record" where
  "groupby_features_trim g d =
     \<lparr> session_id = session_id g,
       product_id_count = product_id_count g,
       product_id_list_seq = ListSlice 0 SESSIONS_MAX_LENGTH (product_id_list g),
       category_code_list_seq = ListSlice 0 SESSIONS_MAX_LENGTH (category_code_list g),
       brand_list_seq = ListSlice 0 SESSIONS_MAX_LENGTH (brand_list g),
       category_id_list_seq = ListSlice 0 SESSIONS_MAX_LENGTH (category_id_list g),
       et_dayofweek_sin_list_seq = ListSlice 0 SESSIONS_MAX_LENGTH (et_dayofweek_sin_list g),
       et_dayofweek_cos_list_seq = ListSlice 0 SESSIONS_MAX_LENGTH (et_dayofweek_cos_list g),
       price_log_norm_list_seq = ListSlice 0 SESSIONS_MAX_LENGTH (price_log_norm_list g),
       relative_price_to_avg_categ_id_list_seq =
         ListSlice 0 SESSIONS_MAX_LENGTH (relative_price_to_avg_categ_id_list g),
       product_recency_days_log_norm_list_seq =
         ListSlice 0 SESSIONS_MAX_LENGTH (product_recency_days_log_norm_list g),
       day_index = d \<rparr>"

text \<open>
  \<^verbatim>\<open>selected_features\<close>: session, count, the trimmed lists and the day index, row by
  row of the grouped frame.
\<close>

definition selected_features :: "session_agg list \<Rightarrow> session_record list" where
  "selected_features gs =
     map2 groupby_features_trim gs (day_index_op (map event_time_dt_first gs))"

text \<open>
  Modelled from the spec: the operator \<^verbatim>\<open>nvt.ops.Filter\<close> is library code that is not
  part of the sources; after section 4.4 of the specification the sessions whose count
  is below the minimum are dropped, that is, the rows for which the lambda
  \<^verbatim>\<open>df["product_id-count"] >= MINIMUM_SESSION_LENGTH\<close> holds are kept.
\<close>

definition filtered_sessions :: "session_record list \<Rightarrow> session_record list" where
  "filtered_sessions recs = filter (\<lambda>s. product_id_count s \<ge> MINIMUM_SESSION_LENGTH) recs"

definition workflow :: "(int, 'a) interaction_scheme list \<Rightarrow> session_record list" where
  "workflow df = filtered_sessions (selected_features (groupby_features df))"

section \<open>Example frames\<close>

text \<open>A raw row with the given session, item and timestamp.\<close>

definition mk_event :: "int \<Rightarrow> int \<Rightarrow> int \<Rightarrow> string option event" where
  "mk_event s p t =
     \<lparr> user_session = s, event_type = Some ''view'', product_id = p, category_id = 1,
       category_code = None, brand = None, price = 1, user_id = 1, event_time_ts = t \<rparr>"

text \<open>
  Two sessions, not in order. Session 2 sees item 5 at the times 10, 20 and 40 and item
  9 at the time 30; session 1 sees item 7 twice in a row.
\<close>

definition example_events :: "string option event list" where
  "example_events =
     [mk_event 2 5 40, mk_event 1 7 10, mk_event 2 5 10, mk_event 2 5 20, mk_event 2 9 30,
      mk_event 1 7 20]"

text \<open>
  An encoded row that enters the grouping, with the given session, item and timestamp;
  the normalised price is the item number, so that the feature lists can be told apart.
\<close>

definition mk_interaction :: "int \<Rightarrow> int \<Rightarrow> int \<Rightarrow> int interaction" where
  "mk_interaction s p t =
     \<lparr> user_session = s, event_type = 1, product_id = p, category_id = 2,
       category_code = 3, brand = 4, price = 1, user_id = 1, event_time_ts = t,
       prod_first_event_time_ts = Some t, event_time_dt = t,
       et_dayofweek_sin = 1 / 2, et_dayofweek_cos = - (1 / 2),
       price_log_norm = real_of_int p, relative_price_to_avg_categ_id = 1,
       product_recency_days_log_norm = 1 \<rparr>"

text \<open>
  Three sessions with 1, 5 and 25 interactions: session 3 sees the items 101 to 125 at
  the times 1 to 25, session 1 sees item 11, session 2 sees the items 21 to 25 at the
  times 1 to 5. The rows of a session are in descending order of time in the frame.
\<close>

definition scenario_df :: "int interaction list" where
  "scenario_df =
     map (\<lambda>i. mk_interaction 3 (100 + i) i) (rev [1..25])
     @ [mk_interaction 1 11 7]
     @ map (\<lambda>i. mk_interaction 2 (20 + i) i) (rev [1..5])"

text \<open>
  Three sessions: session 1 starts on 2019-10-01 at 00:00:00, session 3 on the same day at
  13:53:20 and session 2 exactly six days after session 1.
\<close>

definition day_example :: "int interaction list" where
  "day_example =
     [mk_interaction 2 5 1570406400, mk_interaction 1 7 1569888000,
      mk_interaction 3 9 1569938000, mk_interaction 2 6 1570406500]"

text \<open>
  A row of the merged frame whose timestamp 5 lies before the first-seen timestamp 10
  that is recorded for its item.
\<close>

definition early_event :: "string option event_first" where
  "early_event = event.extend (mk_event 2 5 5) (event_first.fields (Some 10))"

section \<open>Properties of the removal of consecutive repeats\<close>

lemma length_shift_fillna [simp]: "length (shift_fillna col) = length col"
  by (simp add: shift_fillna_def)

lemma nth_shift_fillna:
  "i < length col \<Longrightarrow> shift_fillna col ! i = (if i = 0 then 0 else col ! (i - 1))"
  by (cases i) (simp_all add: shift_fillna_def)

lemma length_repeat_mask [simp]: "length (repeat_mask df) = length df"
  by (simp add: repeat_mask_def Let_def)

lemma nth_repeat_mask:
  assumes "i < length df"
  shows "repeat_mask df ! i \<longleftrightarrow>
           \<not> (user_session (df ! i) = (if i = 0 then 0 else user_session (df ! (i - 1)))
              \<and> product_id (df ! i) = (if i = 0 then 0 else product_id (df ! (i - 1))))"
  using assms by (simp add: repeat_mask_def Let_def nth_shift_fillna)

lemma boolean_index_nths:
  "length keep = length df \<Longrightarrow>
     boolean_index df keep = nths df {i. i < length df \<and> keep ! i}"
proof (induction df keep rule: list_induct2')
  case (4 x xs b bs)
  then have IH: "boolean_index xs bs = nths xs {i. i < length xs \<and> bs ! i}" by simp
  have S: "{j. Suc j \<in> {i. i < length (x # xs) \<and> (b # bs) ! i}} = {i. i < length xs \<and> bs ! i}"
    by auto
  show ?case
    using IH by (simp add: boolean_index_def nths_Cons S)
qed (simp_all add: boolean_index_def)

lemma boolean_index_dedup_from_gen:
  "map fst (filter snd (zip df (map (\<lambda>(r, sp, pp). \<not> (user_session r = sp \<and> product_id r = pp))
       (zip df (zip (take (length df) (s # map user_session df))
                    (take (length df) (p # map product_id df)))))))
   = dedup_from s p df"
  by (induction df arbitrary: s p) simp_all

lemma boolean_index_dedup_from:
  "boolean_index df (repeat_mask df) = dedup_from 0 0 df"
  using boolean_index_dedup_from_gen [of df 0 0]
  by (simp add: boolean_index_def repeat_mask_def Let_def shift_fillna_def)

lemma run_heads_Cons:
  "run_heads (x # xs) = x # dedup_from (user_session x) (product_id x) xs"
proof (induction "x # xs" arbitrary: x xs rule: run_heads.induct)
  case (2 x)
  then show ?case by simp
next
  case (3 x y zs)
  then show ?case by (auto simp: same_key_def)
qed

lemma dedup_from_run_heads:
  "df = [] \<or> user_session (hd df) \<noteq> s \<or> product_id (hd df) \<noteq> p \<Longrightarrow>
     dedup_from s p df = run_heads df"
  by (cases df) (auto simp: run_heads_Cons)

lemma mk_event_sel [simp]:
  "user_session (mk_event s p t) = s" "product_id (mk_event s p t) = p"
  "event_time_ts (mk_event s p t) = t"
  by (simp_all add: mk_event_def)

lemma sort_values_example:
  "sort_values example_events =
     [mk_event 1 7 10, mk_event 1 7 20, mk_event 2 5 10, mk_event 2 5 20, mk_event 2 9 30,
      mk_event 2 5 40]"
  by (simp add: sort_values_def example_events_def)

lemma repeat_mask_example:
  "repeat_mask (sort_values example_events) = [True, False, True, False, True, True]"
  by (simp add: sort_values_example repeat_mask_def shift_fillna_def)

text \<open>
  Claim C2. In the frame sorted by session and timestamp, a row is dropped exactly when
  it has a preceding row and both its session and its item are those of that row. So of
  two adjacent rows of one session with the same item the later one is dropped, and a
  row whose item differs from the item of the row before it stays even when the same
  item occurs earlier in the session. The output is the sorted frame restricted to the
  rows that are kept. Session identifiers are the codes of the categorified column,
  which are never 0.
\<close>

theorem consecutive_duplicate_removal:
  fixes df :: "('c, 'a) event_scheme list"
  assumes "\<forall>r \<in> set df. user_session r \<noteq> 0"
  shows "sorted (map (\<lambda>r. (user_session r, event_time_ts r)) (sort_values df))
       \<and> mset (sort_values df) = mset df
       \<and> remove_consecutive_repeats df
           = nths (sort_values df) {i. i < length df \<and> repeat_mask (sort_values df) ! i}
       \<and> (\<forall>i < length df.
             (\<not> repeat_mask (sort_values df) ! i) \<longleftrightarrow>
               (0 < i \<and> user_session (sort_values df ! i) = user_session (sort_values df ! (i - 1))
                      \<and> product_id (sort_values df ! i) = product_id (sort_values df ! (i - 1))))
       \<and> (\<forall>i. Suc i < length df
               \<and> user_session (sort_values df ! Suc i) = user_session (sort_values df ! i)
               \<and> product_id (sort_values df ! Suc i) = product_id (sort_values df ! i)
             \<longrightarrow> \<not> repeat_mask (sort_values df) ! Suc i)
       \<and> (\<forall>i j. j < i \<and> Suc i < length df
               \<and> user_session (sort_values df ! j) = user_session (sort_values df ! Suc i)
               \<and> product_id (sort_values df ! j) = product_id (sort_values df ! Suc i)
               \<and> product_id (sort_values df ! i) \<noteq> product_id (sort_values df ! Suc i)
             \<longrightarrow> repeat_mask (sort_values df) ! Suc i)"
proof -
  let ?s = "sort_values df"
  have len: "length ?s = length df" by (simp add: sort_values_def)
  have srt: "sorted (map (\<lambda>r. (user_session r, event_time_ts r)) ?s)"
    by (simp add: sort_values_def)
  have ms: "mset ?s = mset df" by (simp add: sort_values_def)
  have out: "remove_consecutive_repeats df = nths ?s {i. i < length df \<and> repeat_mask ?s ! i}"
    using boolean_index_nths [of "repeat_mask ?s" ?s]
    by (simp add: remove_consecutive_repeats_def Let_def len)
  have valid: "user_session (?s ! i) \<noteq> 0" if "i < length df" for i
  proof -
    have "?s ! i \<in> set ?s" using that len by simp
    then have "?s ! i \<in> set df" by (simp add: sort_values_def)
    with assms show ?thesis by blast
  qed
  have iff: "(\<not> repeat_mask ?s ! i) \<longleftrightarrow>
               (0 < i \<and> user_session (?s ! i) = user_session (?s ! (i - 1))
                      \<and> product_id (?s ! i) = product_id (?s ! (i - 1)))"
    if "i < length df" for i
    using that valid [of i] nth_repeat_mask [of i ?s] len by auto
  have adj: "\<not> repeat_mask ?s ! Suc i"
    if "Suc i < length df"
       "user_session (?s ! Suc i) = user_session (?s ! i)"
       "product_id (?s ! Suc i) = product_id (?s ! i)" for i
    using that iff [of "Suc i"] by simp
  have non: "repeat_mask ?s ! Suc i"
    if "Suc i < length df" "product_id (?s ! i) \<noteq> product_id (?s ! Suc i)" for i
    using that iff [of "Suc i"] by auto
  show ?thesis
    using srt ms out iff adj non by blast
qed

theorem consecutive_duplicate_removal_witness:
  "remove_consecutive_repeats example_events
       = [mk_event 1 7 10, mk_event 2 5 10, mk_event 2 9 30, mk_event 2 5 40]
   \<and> \<not> repeat_mask (sort_values example_events) ! 3
   \<and> repeat_mask (sort_values example_events) ! 5"
proof -
  have h: "\<forall>r \<in> set example_events. user_session r \<noteq> 0"
    by (simp add: example_events_def)
  have l: "length example_events = 6" by (simp add: example_events_def)
  note T = consecutive_duplicate_removal [OF h, unfolded l]
  have S: "{i. i < (6::nat) \<and> repeat_mask (sort_values example_events) ! i} = {0, 2, 4, 5}"
    unfolding repeat_mask_example
    by (auto simp: nth_Cons' less_Suc_eq numeral_eq_Suc)
  from T have "remove_consecutive_repeats example_events
      = nths (sort_values example_events) {i. i < 6 \<and> repeat_mask (sort_values example_events) ! i}"
    by blast
  then have out: "remove_consecutive_repeats example_events
       = [mk_event 1 7 10, mk_event 2 5 10, mk_event 2 9 30, mk_event 2 5 40]"
    unfolding S by (simp add: sort_values_example nths_Cons)
  from T have iff: "\<forall>i < 6. (\<not> repeat_mask (sort_values example_events) ! i) \<longleftrightarrow>
      (0 < i \<and> user_session (sort_values example_events ! i) = user_session (sort_values example_events ! (i - 1))
             \<and> product_id (sort_values example_events ! i) = product_id (sort_values example_events ! (i - 1)))"
    by blast
  have a: "\<not> repeat_mask (sort_values example_events) ! 3"
    using iff [rule_format, of 3] by (simp add: sort_values_example)
  have b: "repeat_mask (sort_values example_events) ! 5"
    using iff [rule_format, of 5] by (simp add: sort_values_example)
  show ?thesis using out a b by blast
qed


lemma sort_values_props:
  "length (sort_values df) = length df" "set (sort_values df) = set df"
  by (simp_all add: sort_values_def)

lemma dropped_iff:
  fixes df :: "('c, 'a) event_scheme list"
  assumes "\<forall>r \<in> set df. user_session r \<noteq> 0" and "i < length df"
  shows "(\<not> repeat_mask df ! i) \<longleftrightarrow>
           (0 < i \<and> user_session (df ! i) = user_session (df ! (i - 1))
                  \<and> product_id (df ! i) = product_id (df ! (i - 1)))"
proof -
  have "user_session (df ! i) \<noteq> 0" using assms by simp
  then show ?thesis using nth_repeat_mask [OF assms(2)] by auto
qed

text \<open>
  Claim C10. The output of the removal is the list of the first rows of the maximal runs
  of rows with the same session and item in the sorted frame: in a run that starts at
  row \<open>i\<close> and reaches row \<open>j\<close>, row \<open>i\<close> is kept and every later row up to \<open>j\<close> is
  dropped, because each row is compared with its neighbour in the sorted frame and not
  with the last row that was kept. The first row of every session is kept; for the
  first row of the frame this holds since the fill value 0 is no session identifier.
\<close>

theorem first_row_of_each_run_survives:
  fixes df :: "('c, 'a) event_scheme list"
  assumes "\<forall>r \<in> set df. user_session r \<noteq> 0"
  shows "remove_consecutive_repeats df = run_heads (sort_values df)
       \<and> (\<forall>i j. i \<le> j \<and> j < length df
               \<and> (i = 0 \<or> \<not> same_key (sort_values df ! (i - 1)) (sort_values df ! i))
               \<and> (\<forall>k. i \<le> k \<and> k \<le> j \<longrightarrow> same_key (sort_values df ! i) (sort_values df ! k))
             \<longrightarrow> repeat_mask (sort_values df) ! i
                 \<and> (\<forall>k. i < k \<and> k \<le> j \<longrightarrow> \<not> repeat_mask (sort_values df) ! k))
       \<and> (\<forall>i < length df.
             (i = 0 \<or> user_session (sort_values df ! (i - 1)) \<noteq> user_session (sort_values df ! i))
             \<longrightarrow> repeat_mask (sort_values df) ! i)"
proof -
  let ?s = "sort_values df"
  have v: "\<forall>r \<in> set ?s. user_session r \<noteq> 0" using assms by (simp add: sort_values_props)
  have len: "length ?s = length df" by (simp add: sort_values_props)
  note iff = dropped_iff [OF v, unfolded len]
  have "?s = [] \<or> user_session (hd ?s) \<noteq> 0 \<or> product_id (hd ?s) \<noteq> 0"
    using v by (cases ?s) auto
  then have heads: "remove_consecutive_repeats df = run_heads ?s"
    by (simp add: remove_consecutive_repeats_def Let_def boolean_index_dedup_from
                  dedup_from_run_heads)
  have runs: "repeat_mask ?s ! i \<and> (\<forall>k. i < k \<and> k \<le> j \<longrightarrow> \<not> repeat_mask ?s ! k)"
    if ij: "i \<le> j" "j < length df"
      and start: "i = 0 \<or> \<not> same_key (?s ! (i - 1)) (?s ! i)"
      and run: "\<forall>k. i \<le> k \<and> k \<le> j \<longrightarrow> same_key (?s ! i) (?s ! k)" for i j
  proof
    show "repeat_mask ?s ! i"
      using iff [of i] ij start by (auto simp: same_key_def)
    show "\<forall>k. i < k \<and> k \<le> j \<longrightarrow> \<not> repeat_mask ?s ! k"
    proof (intro allI impI)
      fix k assume k: "i < k \<and> k \<le> j"
      then have "i \<le> k \<and> k \<le> j" "i \<le> k - 1 \<and> k - 1 \<le> j" by auto
      then have "same_key (?s ! i) (?s ! k)" "same_key (?s ! i) (?s ! (k - 1))"
        using run by blast+
      then show "\<not> repeat_mask ?s ! k"
        using iff [of k] k ij by (auto simp: same_key_def)
    qed
  qed
  have first: "repeat_mask ?s ! i"
    if "i < length df" "i = 0 \<or> user_session (?s ! (i - 1)) \<noteq> user_session (?s ! i)" for i
    using iff [of i] that by auto
  show ?thesis
    using heads runs first by blast
qed

theorem first_row_of_each_run_survives_witness:
  "run_heads (sort_values example_events)
       = [mk_event 1 7 10, mk_event 2 5 10, mk_event 2 9 30, mk_event 2 5 40]
   \<and> repeat_mask (sort_values example_events) ! 2"
proof -
  have h: "\<forall>r \<in> set example_events. user_session r \<noteq> 0"
    by (simp add: example_events_def)
  have l: "length example_events = 6" by (simp add: example_events_def)
  note T = first_row_of_each_run_survives [OF h, unfolded l]
  from T have "remove_consecutive_repeats example_events = run_heads (sort_values example_events)"
    by blast
  then have a: "run_heads (sort_values example_events)
       = [mk_event 1 7 10, mk_event 2 5 10, mk_event 2 9 30, mk_event 2 5 40]"
    by (simp add: remove_consecutive_repeats_def Let_def repeat_mask_example boolean_index_def
                  sort_values_example same_key_def)
  from T have "\<forall>i < 6. (i = 0 \<or> user_session (sort_values example_events ! (i - 1))
                              \<noteq> user_session (sort_values example_events ! i))
                 \<longrightarrow> repeat_mask (sort_values example_events) ! i"
    by blast
  from this [rule_format, of 2] have b: "repeat_mask (sort_values example_events) ! 2"
    by (simp add: sort_values_example)
  show ?thesis using a b by blast
qed

section \<open>Properties of the item first-seen timestamp and the recency\<close>

lemma col_min_eq: "col_min xs = (if xs = [] then None else Some (Min (set xs)))"
proof (cases xs)
  case Nil
  then show ?thesis by simp
next
  case (Cons a list)
  have "Min (set (a # list)) = fold min list a" by (rule Min.set_eq_fold)
  then show ?thesis using Cons by simp
qed

lemma map_of_map_filter_Pair:
  "map_of (List.map_filter (\<lambda>p. map_option (Pair p) (g p)) ks) k
     = (if k \<in> set ks then g k else None)"
  by (induction ks) (auto split: option.splits)

lemma map_of_item_first_interaction_df:
  "map_of (item_first_interaction_df df) p =
     (if p \<in> product_id ` set df
      then Some (Min (event_time_ts ` {x \<in> set df. product_id x = p}))
      else None)"
proof -
  have S: "set (map event_time_ts (filter (\<lambda>r. product_id r = p) df))
             = event_time_ts ` {x \<in> set df. product_id x = p}"
    by auto
  have N: "filter (\<lambda>r. product_id r = p) df \<noteq> []" if "p \<in> product_id ` set df"
    using that by (auto simp: filter_empty_conv)
  show ?thesis
    unfolding item_first_interaction_df_def map_of_map_filter_Pair col_min_eq
    using S N by auto
qed

lemma extend_sel [simp]:
  "product_id (event.extend x (event_first.fields v)) = product_id x"
  "event_time_ts (event.extend x (event_first.fields v)) = event_time_ts x"
  "user_session (event.extend x (event_first.fields v)) = user_session x"
  "prod_first_event_time_ts (event.extend x (event_first.fields v)) = v"
  by (cases x; simp add: event.defs event_first.defs)+

lemma run_heads_earlier:
  fixes s :: "('c, 'a) event_scheme list"
  assumes "sorted (map (\<lambda>r. (user_session r, event_time_ts r)) s)" and "x \<in> set s"
  shows "\<exists>y \<in> set (run_heads s). same_key y x \<and> event_time_ts y \<le> event_time_ts x"
  using assms
proof (induction s arbitrary: x rule: run_heads.induct)
  case 1
  then show ?case by simp
next
  case (2 a)
  then show ?case by (simp add: same_key_def)
next
  case (3 a b zs)
  show ?case
  proof (cases "same_key a b")
    case True
    have srt: "sorted (map (\<lambda>r. (user_session r, event_time_ts r)) (a # zs))"
      using 3(3) by auto
    have ab: "event_time_ts a \<le> event_time_ts b"
      using 3(3) True by (auto simp: same_key_def)
    have hd: "a \<in> set (run_heads (a # zs))" by (simp add: run_heads_Cons)
    consider "x = b" | "x \<in> set (a # zs)" using 3(4) by auto
    then show ?thesis
    proof cases
      case 1
      then show ?thesis using True ab hd by auto
    next
      case 2
      then show ?thesis using 3(1) [OF True srt 2] True by simp
    qed
  next
    case False
    have srt: "sorted (map (\<lambda>r. (user_session r, event_time_ts r)) (b # zs))"
      using 3(3) by auto
    consider "x = a" | "x \<in> set (b # zs)" using 3(4) by auto
    then show ?thesis
    proof cases
      case 1
      then show ?thesis using False by (auto simp: same_key_def)
    next
      case 2
      then show ?thesis using 3(2) [OF False srt 2] False by auto
    qed
  qed
qed

lemma set_run_heads: "set (run_heads s) \<subseteq> set s"
  by (induction s rule: run_heads.induct) auto

lemma Min_first_seen_dedup:
  fixes df0 :: "('c, 'a) event_scheme list"
  assumes valid: "\<forall>r \<in> set df0. user_session r \<noteq> 0" and "x \<in> set df0"
  shows "Min (event_time_ts ` {y \<in> set (remove_consecutive_repeats df0). product_id y = product_id x})
       = Min (event_time_ts ` {y \<in> set df0. product_id y = product_id x})"
proof -
  let ?s = "sort_values df0"
  let ?d = "remove_consecutive_repeats df0"
  let ?A = "event_time_ts ` {y \<in> set ?d. product_id y = product_id x}"
  let ?B = "event_time_ts ` {y \<in> set df0. product_id y = product_id x}"
  have v: "?s = [] \<or> user_session (hd ?s) \<noteq> 0 \<or> product_id (hd ?s) \<noteq> 0"
  proof (cases ?s)
    case Nil
    then show ?thesis by simp
  next
    case (Cons a list)
    then have "a \<in> set ?s" by simp
    then have "a \<in> set df0" by (simp add: sort_values_props)
    then show ?thesis using valid Cons by auto
  qed
  have d: "?d = run_heads ?s"
    using v by (simp add: remove_consecutive_repeats_def Let_def boolean_index_dedup_from
                  dedup_from_run_heads)
  have sub: "set ?d \<subseteq> set df0"
    using set_run_heads [of ?s] by (simp add: d sort_values_props)
  have srt: "sorted (map (\<lambda>r. (user_session r, event_time_ts r)) ?s)"
    by (simp add: sort_values_def)
  have ex: "\<exists>y \<in> set ?d. product_id y = product_id z \<and> event_time_ts y \<le> event_time_ts z"
    if "z \<in> set df0" for z
    using run_heads_earlier [OF srt, of z] that
    by (auto simp: d sort_values_props same_key_def)
  have finA: "finite ?A" and finB: "finite ?B" by simp_all
  have neB: "?B \<noteq> {}" using assms(2) by auto
  have neA: "?A \<noteq> {}" using ex [OF assms(2)] by auto
  have AB: "?A \<subseteq> ?B" using sub by auto
  have le1: "Min ?B \<le> Min ?A" using Min_antimono [OF AB neA finB] .
  have "Min ?B \<in> ?B" using Min_in [OF finB neB] .
  then obtain z where z: "z \<in> set df0" "product_id z = product_id x" "event_time_ts z = Min ?B"
    by auto
  from ex [OF z(1)] obtain y where y: "y \<in> set ?d" "product_id y = product_id z"
      "event_time_ts y \<le> event_time_ts z" by blast
  then have "event_time_ts y \<in> ?A" using z(2) by auto
  then have "Min ?A \<le> event_time_ts y" using Min_le [OF finA] by blast
  then have "Min ?A \<le> Min ?B" using y(3) z(3) by linarith
  with le1 show ?thesis by linarith
qed


lemma ItemRecency_transform_Some:
  "prod_first_event_time_ts r = Some f \<Longrightarrow>
     ItemRecency_transform r = Some (max 0 (real_of_int (event_time_ts r - f) / 86400))"
  by (simp add: ItemRecency_transform_def Let_def max_def)

lemma preprocess_rows:
  assumes "r \<in> set (preprocess df0)"
  shows "\<exists>x \<in> set (remove_consecutive_repeats df0).
           product_id r = product_id x \<and> event_time_ts r = event_time_ts x
         \<and> prod_first_event_time_ts r
             = map_of (item_first_interaction_df (remove_consecutive_repeats df0)) (product_id x)"
  using assms by (auto simp: preprocess_def Let_def first_week_def merge_left_def)

lemma first_seen_is_item_minimum:
  fixes df0 :: "'c event list"
  assumes "\<forall>r \<in> set df0. user_session r \<noteq> 0" and "r \<in> set (preprocess df0)"
  shows "prod_first_event_time_ts r
             = Some (Min (event_time_ts ` {x \<in> set (remove_consecutive_repeats df0).
                                            product_id x = product_id r}))
         \<and> prod_first_event_time_ts r
             = Some (Min (event_time_ts ` {x \<in> set df0. product_id x = product_id r}))"
proof -
  let ?d = "remove_consecutive_repeats df0"
  from preprocess_rows [OF assms(2)]
  obtain x where x: "x \<in> set ?d" "product_id r = product_id x"
      "event_time_ts r = event_time_ts x"
      "prod_first_event_time_ts r = map_of (item_first_interaction_df ?d) (product_id x)"
    by blast
  have xin: "x \<in> set df0"
    using x(1) boolean_index_nths [of "repeat_mask (sort_values df0)" "sort_values df0"]
      set_nths_subset [of "sort_values df0"]
    by (auto simp: remove_consecutive_repeats_def Let_def sort_values_props)
  have a: "prod_first_event_time_ts r
      = Some (Min (event_time_ts ` {y \<in> set ?d. product_id y = product_id r}))"
    using x by (simp add: map_of_item_first_interaction_df)
  have b: "prod_first_event_time_ts r
      = Some (Min (event_time_ts ` {y \<in> set df0. product_id y = product_id r}))"
    using a Min_first_seen_dedup [OF assms(1) xin] x(2) by simp
  show ?thesis using a b by simp
qed

lemma ItemRecency_transform_nonneg: "ItemRecency_transform r = Some v \<Longrightarrow> 0 \<le> v"
proof (cases "prod_first_event_time_ts r")
  case None
  then have "ItemRecency_transform r = None" by (simp add: ItemRecency_transform_def)
  moreover assume "ItemRecency_transform r = Some v"
  ultimately show ?thesis by simp
next
  case (Some f)
  assume "ItemRecency_transform r = Some v"
  then have "v = max 0 (real_of_int (event_time_ts r - f) / 86400)"
    using ItemRecency_transform_Some [OF Some] by simp
  then show ?thesis by simp
qed

text \<open>
  Claim C3. For every row of the frame that the preprocessing writes, the first-seen
  timestamp of the row's item is the minimum timestamp over all rows with that item,
  in the frame without consecutive repeats, on which the minimum is computed, and
  equally in the frame before the removal. For any row \<open>x\<close> with a first-seen timestamp,
  whatever the two timestamps are, the recency in days that
  \<^verbatim>\<open>ItemRecency.transform\<close> computes is the maximum of 0 and the difference of the
  timestamps divided by 86400: it is 0 where the row is earlier than the first-seen
  timestamp, the quotient itself otherwise, and it is never negative.
\<close>

theorem recency_derivation:
  fixes df0 :: "'c event list" and x :: "('d, 'b) event_first_scheme"
  assumes "\<forall>r \<in> set df0. user_session r \<noteq> 0"
  shows "(\<forall>r \<in> set (preprocess df0).
            prod_first_event_time_ts r
              = Some (Min (event_time_ts ` {y \<in> set (remove_consecutive_repeats df0).
                                             product_id y = product_id r}))
          \<and> prod_first_event_time_ts r
              = Some (Min (event_time_ts ` {y \<in> set df0. product_id y = product_id r}))
          \<and> ItemRecency_transform r
              = Some (max 0 (real_of_int (event_time_ts r
                   - Min (event_time_ts ` {y \<in> set df0. product_id y = product_id r})) / 86400)))
       \<and> (\<forall>first_seen. prod_first_event_time_ts x = Some first_seen \<longrightarrow>
              ItemRecency_transform x
                = Some (max 0 (real_of_int (event_time_ts x - first_seen) / 86400))
            \<and> (event_time_ts x < first_seen \<longrightarrow> ItemRecency_transform x = Some 0)
            \<and> (first_seen \<le> event_time_ts x \<longrightarrow>
                 ItemRecency_transform x
                   = Some (real_of_int (event_time_ts x - first_seen) / 86400)))
       \<and> (\<forall>v. ItemRecency_transform x = Some v \<longrightarrow> 0 \<le> v)"
proof (intro conjI ballI allI impI)
  fix r assume r: "r \<in> set (preprocess df0)"
  note F = first_seen_is_item_minimum [OF assms r]
  show "prod_first_event_time_ts r
              = Some (Min (event_time_ts ` {y \<in> set (remove_consecutive_repeats df0).
                                             product_id y = product_id r}))"
    using F by blast
  show b: "prod_first_event_time_ts r
              = Some (Min (event_time_ts ` {y \<in> set df0. product_id y = product_id r}))"
    using F by blast
  show "ItemRecency_transform r
              = Some (max 0 (real_of_int (event_time_ts r
                   - Min (event_time_ts ` {y \<in> set df0. product_id y = product_id r})) / 86400))"
    by (rule ItemRecency_transform_Some [OF b])
next
  fix first_seen assume f: "prod_first_event_time_ts x = Some first_seen"
  show c: "ItemRecency_transform x
             = Some (max 0 (real_of_int (event_time_ts x - first_seen) / 86400))"
    by (rule ItemRecency_transform_Some [OF f])
  show "ItemRecency_transform x = Some 0" if "event_time_ts x < first_seen"
    using that by (simp add: c max_def)
  show "ItemRecency_transform x = Some (real_of_int (event_time_ts x - first_seen) / 86400)"
    if "first_seen \<le> event_time_ts x"
    using that by (simp add: c max_def)
next
  fix v assume "ItemRecency_transform x = Some v"
  then show "0 \<le> v" by (rule ItemRecency_transform_nonneg)
qed

lemma remove_consecutive_repeats_example:
  "remove_consecutive_repeats example_events
     = [mk_event 1 7 10, mk_event 2 5 10, mk_event 2 9 30, mk_event 2 5 40]"
  by (simp add: remove_consecutive_repeats_def Let_def boolean_index_def sort_values_example
                repeat_mask_example [unfolded sort_values_example])

lemma preprocess_example_last:
  "preprocess example_events ! 3 = event.extend (mk_event 2 5 40) (event_first.fields (Some 10))"
  by (simp add: preprocess_def Let_def remove_consecutive_repeats_example first_week_def
        merge_left_def item_first_interaction_df_def)

theorem recency_derivation_witness:
  "ItemRecency_transform early_event = Some 0
   \<and> prod_first_event_time_ts (preprocess example_events ! 3) = Some 10
   \<and> ItemRecency_transform (preprocess example_events ! 3) = Some (1 / 2880)"
proof -
  have h: "\<forall>r \<in> set example_events. user_session r \<noteq> 0"
    by (simp add: example_events_def)
  have len: "length (preprocess example_events) = 4"
    by (simp add: preprocess_def Let_def remove_consecutive_repeats_example first_week_def
        merge_left_def)
  have mem: "preprocess example_events ! 3 \<in> set (preprocess example_events)"
    using len by simp
  have M: "Min (event_time_ts ` {x \<in> set example_events. product_id x = 5}) = 10"
  proof -
    have "{x \<in> set example_events. product_id x = 5}
            = set (filter (\<lambda>x. product_id x = 5) example_events)"
      by simp
    also have "\<dots> = {mk_event 2 5 40, mk_event 2 5 10, mk_event 2 5 20}"
      by (simp add: example_events_def)
    finally show ?thesis by simp
  qed
  note T = recency_derivation [OF h, where x = early_event]
  from T have "\<forall>first_seen. prod_first_event_time_ts early_event = Some first_seen \<longrightarrow>
                 (event_time_ts early_event < first_seen
                    \<longrightarrow> ItemRecency_transform early_event = Some 0)"
    by blast
  from this [rule_format, of 10] have a: "ItemRecency_transform early_event = Some 0"
    by (simp add: early_event_def)
  from T have "\<forall>r \<in> set (preprocess example_events).
            prod_first_event_time_ts r
              = Some (Min (event_time_ts ` {y \<in> set example_events. product_id y = product_id r}))
          \<and> ItemRecency_transform r
              = Some (max 0 (real_of_int (event_time_ts r
                   - Min (event_time_ts ` {y \<in> set example_events.
                                              product_id y = product_id r})) / 86400))"
    by blast
  from this [rule_format, OF mem]
  have b: "prod_first_event_time_ts (preprocess example_events ! 3) = Some 10
   \<and> ItemRecency_transform (preprocess example_events ! 3) = Some (1 / 2880)"
    by (simp add: preprocess_example_last M)
  show ?thesis using a b by blast
qed

section \<open>Properties of the cyclical weekday features\<close>

lemma weekday_sin_eq:
  "weekday_sin d = sin (2 * pi * (real_of_int d + 1 + 1 / 1000000) / 7)"
  by (simp add: weekday_sin_def get_cycled_feature_value_sin_def Let_def)

lemma weekday_cos_eq:
  "weekday_cos d = cos (2 * pi * (real_of_int d + 1 + 1 / 1000000) / 7)"
  by (simp add: weekday_cos_def get_cycled_feature_value_cos_def Let_def)

lemma chord_square:
  "(sin a - sin b)\<^sup>2 + (cos a - cos b)\<^sup>2 = 2 - 2 * cos (a - b)" for a b :: real
proof -
  have "(sin a - sin b)\<^sup>2 + (cos a - cos b)\<^sup>2
          = ((sin a)\<^sup>2 + (cos a)\<^sup>2) + ((sin b)\<^sup>2 + (cos b)\<^sup>2)
            - 2 * (cos a * cos b + sin a * sin b)"
    by (simp add: power2_eq_square algebra_simps)
  also have "\<dots> = 2 - 2 * cos (a - b)"
    by (simp add: cos_diff)
  finally show ?thesis .
qed

lemma euclidean_weekday:
  "euclidean (weekday_encoding d) (weekday_encoding e)
     = sqrt (2 - 2 * cos (2 * pi * real_of_int (d - e) / 7))"
proof -
  let ?a = "2 * pi * (real_of_int d + 1 + 1 / 1000000) / 7"
  let ?b = "2 * pi * (real_of_int e + 1 + 1 / 1000000) / 7"
  have "?a - ?b = 2 * pi * real_of_int (d - e) / 7"
    by (simp add: field_simps)
  then have c: "cos (?a - ?b) = cos (2 * pi * real_of_int (d - e) / 7)"
    by (rule arg_cong)
  have "euclidean (weekday_encoding d) (weekday_encoding e)
          = sqrt ((sin ?a - sin ?b)\<^sup>2 + (cos ?a - cos ?b)\<^sup>2)"
    unfolding euclidean_def weekday_encoding_def weekday_sin_eq weekday_cos_eq fst_conv snd_conv ..
  also have "\<dots> = sqrt (2 - 2 * cos (?a - ?b))"
    unfolding chord_square ..
  finally show ?thesis unfolding c .
qed

lemma cos_six_sevenths: "cos (2 * pi * 3 / 7) < cos (2 * pi * 6 / 7)"
proof -
  have "2 * pi * 6 / 7 = 2 * pi - 2 * pi / 7"
    by (simp add: field_simps)
  then have "cos (2 * pi * 6 / 7) = cos (2 * pi - 2 * pi / 7)"
    by (rule arg_cong)
  also have "\<dots> = cos (2 * pi / 7)"
    unfolding cos_diff by simp
  finally have e: "cos (2 * pi * 6 / 7) = cos (2 * pi / 7)" .
  have "cos (2 * pi * 3 / 7) < cos (2 * pi / 7)"
    by (rule cos_monotone_0_pi) (use pi_gt_zero in auto)
  with e show ?thesis by simp
qed

text \<open>
  Claim C5. The two features of a weekday \<open>d\<close> are the sine and the cosine of
  \<open>2\<pi>(d + 1 + \<epsilon>)/7\<close> with \<open>\<epsilon> = 10\<^sup>-\<^sup>6\<close>; their squares add up to 1; and the
  encoding of day 6 is closer to the encoding of day 0 than the encoding of day 3 is.
  float64 is modelled by exact reals, so the sum of squares is exactly 1.
\<close>

theorem cyclical_weekday_encoding:
  "weekday_sin d = sin (2 * pi * (real_of_int d + 1 + 1 / 1000000) / 7)
   \<and> weekday_cos d = cos (2 * pi * (real_of_int d + 1 + 1 / 1000000) / 7)
   \<and> (weekday_sin d)\<^sup>2 + (weekday_cos d)\<^sup>2 = 1
   \<and> euclidean (weekday_encoding 6) (weekday_encoding 0)
       < euclidean (weekday_encoding 3) (weekday_encoding 0)"
proof -
  have sq: "(weekday_sin d)\<^sup>2 + (weekday_cos d)\<^sup>2 = 1"
    by (simp add: weekday_sin_eq weekday_cos_eq)
  have "2 - 2 * cos (2 * pi * 6 / 7) < 2 - 2 * cos (2 * pi * 3 / 7)"
    using cos_six_sevenths by simp
  then have "euclidean (weekday_encoding 6) (weekday_encoding 0)
       < euclidean (weekday_encoding 3) (weekday_encoding 0)"
    by (simp add: euclidean_weekday)
  with sq weekday_sin_eq weekday_cos_eq show ?thesis by blast
qed

section \<open>Properties of the relative price\<close>

lemma relative_price_positive_mean:
  "0 < col \<Longrightarrow>
     relative_price_to_avg_categ col p = Some ((p - col) / (col + 1 / 100000))"
  by (simp add: relative_price_to_avg_categ_def Let_def)

lemma relative_price_nonpositive_mean:
  "col \<le> 0 \<Longrightarrow> col \<noteq> - (1 / 100000) \<Longrightarrow> relative_price_to_avg_categ col p = Some 0"
  by (auto simp: relative_price_to_avg_categ_def Let_def)

text \<open>
  Claim C6. The feature is the stated quotient where the category mean is positive and
  0 where it is not positive, with one exception: the quotient is computed before the
  mask is applied, so for the mean \<open>-10\<^sup>-\<^sup>5\<close> the divisor is zero and the result is not
  a number instead of 0. The theorem evaluates the function at that mean.
\<close>

theorem relative_price_at_negative_epsilon:
  "relative_price_to_avg_categ (- (1 / 100000)) 1 = None
   \<and> relative_price_to_avg_categ (- (1 / 100000)) 1 \<noteq> Some 0
   \<and> relative_price_to_avg_categ 0 1 = Some 0
   \<and> relative_price_to_avg_categ 2 3 = Some (1 / (2 + 1 / 100000))"
  by (simp add: relative_price_to_avg_categ_def Let_def)

section \<open>Properties of the categorical encoding\<close>

lemma position_None: "position xs v = None \<longleftrightarrow> v \<notin> set xs"
  by (induction xs) auto

lemma position_Some: "position xs v = Some i \<Longrightarrow> i < length xs \<and> xs ! i = v"
  by (induction xs arbitrary: i) (auto split: if_splits)

lemma position_less: "position xs v = Some i \<Longrightarrow> Suc i \<le> length xs"
  using position_Some [of xs v i] by simp

lemma position_nth: "distinct xs \<Longrightarrow> i < length xs \<Longrightarrow> position xs (xs ! i) = Some i"
proof (induction xs arbitrary: i)
  case Nil
  then show ?case by simp
next
  case (Cons x xs)
  then show ?case by (cases i) auto
qed

lemma set_map_filter_id: "set (List.map_filter id col) = {x. Some x \<in> set col}"
  by (induction col) (auto split: option.splits)

lemma set_Categorify_fit: "set (Categorify_fit col) = {x. Some x \<in> set col}"
  by (simp add: Categorify_fit_def set_map_filter_id)

lemma distinct_Categorify_fit: "distinct (Categorify_fit col)"
  by (simp add: Categorify_fit_def)

lemma Categorify_positive: "0 < start_index \<Longrightarrow> Categorify start_index vocab v \<noteq> 0"
  by (auto simp: Categorify_def split: option.splits)

lemma Categorify_bij:
  assumes "distinct vocab"
  shows "bij_betw (Categorify s vocab) (insert None (Some ` set vocab)) {s .. s + length vocab}"
proof (rule bij_betw_byWitness [where f' = "\<lambda>n. if n = s then None else Some (vocab ! (n - s - 1))"])
  show "\<forall>a \<in> insert None (Some ` set vocab).
          (if Categorify s vocab a = s then None else Some (vocab ! (Categorify s vocab a - s - 1))) = a"
    by (auto simp: Categorify_def position_None split: option.splits dest: position_Some)
  show "\<forall>n \<in> {s .. s + length vocab}.
          Categorify s vocab (if n = s then None else Some (vocab ! (n - s - 1))) = n"
    using assms by (auto simp: Categorify_def position_nth)
  show "Categorify s vocab ` insert None (Some ` set vocab) \<subseteq> {s .. s + length vocab}"
    by (auto simp: Categorify_def split: option.splits dest: position_less)
  show "(\<lambda>n. if n = s then None else Some (vocab ! (n - s - 1))) ` {s .. s + length vocab}
          \<subseteq> insert None (Some ` set vocab)"
    by auto
qed

text \<open>
  Claim C7. With \<^verbatim>\<open>start_index=1\<close> the encoding is a bijection from the observed
  values of the column together with the null, which stands for the reserved unknown
  code, onto the integers from 1 to the cardinality, which is the number of observed
  values plus one. The null and every value that was not observed get the reserved
  code 1, and no value at all gets the code 0.
\<close>

theorem categorical_remapping:
  "bij_betw (Categorify 1 (Categorify_fit col))
       (insert None (Some ` {x. Some x \<in> set col}))
       {1 .. card {x. Some x \<in> set col} + 1}
   \<and> Categorify 1 (Categorify_fit col) None = 1
   \<and> Categorify 1 (Categorify_fit col) v \<noteq> 0"
proof -
  have len: "length (Categorify_fit col) = card {x. Some x \<in> set col}"
    using distinct_card [OF distinct_Categorify_fit [of col]] by (simp add: set_Categorify_fit)
  have "bij_betw (Categorify 1 (Categorify_fit col))
          (insert None (Some ` set (Categorify_fit col))) {1 .. 1 + length (Categorify_fit col)}"
    by (rule Categorify_bij [OF distinct_Categorify_fit])
  then have b: "bij_betw (Categorify 1 (Categorify_fit col))
       (insert None (Some ` {x. Some x \<in> set col})) {1 .. card {x. Some x \<in> set col} + 1}"
    by (simp add: set_Categorify_fit len)
  have n: "Categorify 1 (Categorify_fit col) None = 1" by (simp add: Categorify_def)
  have z: "Categorify 1 (Categorify_fit col) v \<noteq> 0" by (rule Categorify_positive) simp
  show ?thesis using b n z by blast
qed

section \<open>Properties of the session aggregation\<close>

lemma length_session_rows:
  "length (session_rows k df) = length (filter (\<lambda>r. user_session r = k) df)"
  by (simp add: session_rows_def)

lemma session_rows_nonempty:
  "k \<in> user_session ` set df \<Longrightarrow> session_rows k df \<noteq> []"
proof -
  assume "k \<in> user_session ` set df"
  then have "filter (\<lambda>r. user_session r = k) df \<noteq> []"
    by (auto simp: filter_empty_conv)
  then have "length (session_rows k df) \<noteq> 0"
    by (simp add: length_session_rows)
  then show ?thesis by auto
qed

lemma aggregate_session_id: "g \<in> set (aggregate k rows) \<Longrightarrow> session_id g = k"
  by (cases rows) auto

lemma aggregate_fields:
  assumes "g \<in> set (aggregate k rows)"
  shows "rows \<noteq> []"
    and "product_id_count g = int (length rows)"
    and "product_id_list g = map product_id rows"
    and "category_code_list g = map category_code rows"
    and "brand_list g = map brand rows"
    and "category_id_list g = map category_id rows"
    and "et_dayofweek_sin_list g = map et_dayofweek_sin rows"
    and "et_dayofweek_cos_list g = map et_dayofweek_cos rows"
    and "price_log_norm_list g = map price_log_norm rows"
    and "relative_price_to_avg_categ_id_list g = map relative_price_to_avg_categ_id rows"
    and "product_recency_days_log_norm_list g = map product_recency_days_log_norm rows"
  using assms by (cases rows; auto)+

lemma aggregate_first:
  "g \<in> set (aggregate k rows) \<Longrightarrow>
     \<exists>r rs. rows = r # rs \<and> event_time_dt_first g = event_time_dt r
           \<and> event_time_ts_first g = event_time_ts r \<and> user_id_first g = user_id r"
  by (cases rows) auto

lemma groupby_features_mem:
  "g \<in> set (groupby_features df) \<Longrightarrow>
     session_id g \<in> user_session ` set df
     \<and> g \<in> set (aggregate (session_id g) (session_rows (session_id g) df))"
proof -
  assume "g \<in> set (groupby_features df)"
  then obtain k where k: "k \<in> user_session ` set df"
      "g \<in> set (aggregate k (session_rows k df))"
    by (auto simp: groupby_features_def)
  then have "session_id g = k" by (simp add: aggregate_session_id)
  with k show ?thesis by simp
qed

lemma map_session_id_concat:
  "\<forall>k \<in> set ks. \<exists>g. F k = [g] \<and> session_id g = k \<Longrightarrow>
     map session_id (concat (map F ks)) = ks"
  by (induction ks) auto

lemma aggregate_singleton:
  "rows \<noteq> [] \<Longrightarrow> \<exists>g. aggregate k rows = [g] \<and> session_id g = k"
  by (cases rows) auto

lemma map_session_id_groupby_features:
  "map session_id (groupby_features df) = sort (remdups (map user_session df))"
  unfolding groupby_features_def
  by (rule map_session_id_concat) (auto intro!: aggregate_singleton session_rows_nonempty)

lemma length_day_index_op [simp]: "length (day_index_op col) = length col"
  by (cases col) (simp_all add: day_index_op_def)

lemma nth_day_index_op:
  "i < length col \<Longrightarrow> day_index_op col ! i = (col ! i - Min (set col)) div 86400 + 1"
  by (auto simp: day_index_op_def col_min_eq)

lemma length_selected_features [simp]: "length (selected_features gs) = length gs"
  by (simp add: selected_features_def)

lemma nth_selected_features:
  "i < length gs \<Longrightarrow>
     selected_features gs ! i
       = groupby_features_trim (gs ! i)
           ((event_time_dt_first (gs ! i) - Min (event_time_dt_first ` set gs)) div 86400 + 1)"
  by (simp add: selected_features_def nth_day_index_op)

lemma selected_features_mem:
  "s \<in> set (selected_features gs) \<Longrightarrow> \<exists>g \<in> set gs. \<exists>d. s = groupby_features_trim g d"
proof -
  assume "s \<in> set (selected_features gs)"
  then obtain i where i: "i < length gs" "s = selected_features gs ! i"
    by (auto simp: in_set_conv_nth)
  then have "gs ! i \<in> set gs" by simp
  then show ?thesis using i nth_selected_features [OF i(1)] by blast
qed

lemma map_session_id_selected_features:
  "map session_id (selected_features gs) = map session_id gs"
  by (rule nth_equalityI) (simp_all add: nth_selected_features groupby_features_trim_def)

lemma ListSlice_first:
  "ListSlice 0 n xs = take (min (length xs) n) xs @ replicate (n - min (length xs) n) 0"
  by (simp add: ListSlice_def Let_def min_def)

lemma length_ListSlice [simp]: "length (ListSlice 0 n xs) = n"
  by (simp add: ListSlice_def Let_def)

lemma mk_interaction_sel [simp]:
  "user_session (mk_interaction s p t) = s" "product_id (mk_interaction s p t) = p"
  "event_time_ts (mk_interaction s p t) = t" "event_time_dt (mk_interaction s p t) = t"
  "price_log_norm (mk_interaction s p t) = real_of_int p"
  by (simp_all add: mk_interaction_def)

lemma upto_1_5: "[1..5::int] = [1, 2, 3, 4, 5]"
  by (simp add: upto_rec1 [of 1])

lemma upto_1_25:
  "[1..25::int] = [1, 2, 3, 4, 5, 6, 7, 8, 9, 10, 11, 12, 13, 14, 15, 16, 17, 18, 19, 20,
                   21, 22, 23, 24, 25]"
  by (simp add: upto_rec1 [of 1])

lemma keys_scenario: "sort (remdups (map user_session scenario_df)) = [1, 2, 3]"
  by (simp add: scenario_df_def upto_1_5 upto_1_25)

lemma session_rows_scenario:
  "session_rows 1 scenario_df = [mk_interaction 1 11 7]"
  "session_rows 2 scenario_df = map (\<lambda>i. mk_interaction 2 (20 + i) i) [1..5]"
  "session_rows 3 scenario_df = map (\<lambda>i. mk_interaction 3 (100 + i) i) [1..25]"
  by (simp_all add: session_rows_def scenario_df_def upto_1_5 upto_1_25)


lemma groupby_features_scenario:
  "groupby_features scenario_df
     = aggregate 1 [mk_interaction 1 11 7]
       @ aggregate 2 (map (\<lambda>i. mk_interaction 2 (20 + i) i) [1..5])
       @ aggregate 3 (map (\<lambda>i. mk_interaction 3 (100 + i) i) [1..25])"
  by (simp add: groupby_features_def keys_scenario session_rows_scenario)

lemma workflow_scenario:
  "map session_id (workflow scenario_df) = [2, 3]"
  "map product_id_count (workflow scenario_df) = [5, 25]"
  "map product_id_list_seq (workflow scenario_df)
     = [[21, 22, 23, 24, 25, 0, 0, 0, 0, 0, 0, 0, 0, 0, 0, 0, 0, 0, 0, 0],
        [101, 102, 103, 104, 105, 106, 107, 108, 109, 110,
         111, 112, 113, 114, 115, 116, 117, 118, 119, 120]]"
  "map price_log_norm_list_seq (workflow scenario_df)
     = [[21, 22, 23, 24, 25, 0, 0, 0, 0, 0, 0, 0, 0, 0, 0, 0, 0, 0, 0, 0],
        [101, 102, 103, 104, 105, 106, 107, 108, 109, 110,
         111, 112, 113, 114, 115, 116, 117, 118, 119, 120]]"
  by (simp_all add: workflow_def filtered_sessions_def selected_features_def
        groupby_features_scenario upto_1_5 upto_1_25 day_index_op_def
        groupby_features_trim_def ListSlice_def SESSIONS_MAX_LENGTH_def
        MINIMUM_SESSION_LENGTH_def Let_def numeral_eq_Suc)


lemma groupby_features_lists:
  assumes "g \<in> set (groupby_features df)"
  shows "session_rows (session_id g) df \<noteq> []"
    and "product_id_count g = int (length (session_rows (session_id g) df))"
    and "product_id_list g = map product_id (session_rows (session_id g) df)"
    and "category_code_list g = map category_code (session_rows (session_id g) df)"
    and "brand_list g = map brand (session_rows (session_id g) df)"
    and "category_id_list g = map category_id (session_rows (session_id g) df)"
    and "et_dayofweek_sin_list g = map et_dayofweek_sin (session_rows (session_id g) df)"
    and "et_dayofweek_cos_list g = map et_dayofweek_cos (session_rows (session_id g) df)"
    and "price_log_norm_list g = map price_log_norm (session_rows (session_id g) df)"
    and "relative_price_to_avg_categ_id_list g
           = map relative_price_to_avg_categ_id (session_rows (session_id g) df)"
    and "product_recency_days_log_norm_list g
           = map product_recency_days_log_norm (session_rows (session_id g) df)"
  using aggregate_fields [OF groupby_features_mem [OF assms, THEN conjunct2]] by blast+

text \<open>
  Claim C8. In every record of the grouped frame the nine list aggregates have the same
  length, which is the count of the record and the number of rows of that session in
  the frame that enters the grouping, that is, the frame without consecutive repeats.
  In every record after the trimming the nine sequences have the same length as well.
\<close>

theorem aggregator_length_invariant:
  fixes df :: "(int, 'a) interaction_scheme list"
  shows "(\<forall>g \<in> set (groupby_features df).
            product_id_count g = int (length (filter (\<lambda>r. user_session r = session_id g) df))
          \<and> int (length (product_id_list g)) = product_id_count g
          \<and> int (length (category_code_list g)) = product_id_count g
          \<and> int (length (brand_list g)) = product_id_count g
          \<and> int (length (category_id_list g)) = product_id_count g
          \<and> int (length (et_dayofweek_sin_list g)) = product_id_count g
          \<and> int (length (et_dayofweek_cos_list g)) = product_id_count g
          \<and> int (length (price_log_norm_list g)) = product_id_count g
          \<and> int (length (relative_price_to_avg_categ_id_list g)) = product_id_count g
          \<and> int (length (product_recency_days_log_norm_list g)) = product_id_count g)
       \<and> (\<forall>s \<in> set (selected_features (groupby_features df)).
            length (category_code_list_seq s) = length (product_id_list_seq s)
          \<and> length (brand_list_seq s) = length (product_id_list_seq s)
          \<and> length (category_id_list_seq s) = length (product_id_list_seq s)
          \<and> length (et_dayofweek_sin_list_seq s) = length (product_id_list_seq s)
          \<and> length (et_dayofweek_cos_list_seq s) = length (product_id_list_seq s)
          \<and> length (price_log_norm_list_seq s) = length (product_id_list_seq s)
          \<and> length (relative_price_to_avg_categ_id_list_seq s) = length (product_id_list_seq s)
          \<and> length (product_recency_days_log_norm_list_seq s) = length (product_id_list_seq s))"
proof (intro conjI ballI)
  fix s assume "s \<in> set (selected_features (groupby_features df))"
  then obtain g d where s: "s = groupby_features_trim g d"
    using selected_features_mem by blast
  show "length (category_code_list_seq s) = length (product_id_list_seq s)"
    and "length (brand_list_seq s) = length (product_id_list_seq s)"
    and "length (category_id_list_seq s) = length (product_id_list_seq s)"
    and "length (et_dayofweek_sin_list_seq s) = length (product_id_list_seq s)"
    and "length (et_dayofweek_cos_list_seq s) = length (product_id_list_seq s)"
    and "length (price_log_norm_list_seq s) = length (product_id_list_seq s)"
    and "length (relative_price_to_avg_categ_id_list_seq s) = length (product_id_list_seq s)"
    and "length (product_recency_days_log_norm_list_seq s) = length (product_id_list_seq s)"
    by (simp_all add: s groupby_features_trim_def)
next
  fix g assume g: "g \<in> set (groupby_features df)"
  note L = groupby_features_lists [OF g]
  show "product_id_count g = int (length (filter (\<lambda>r. user_session r = session_id g) df))"
    by (simp add: L(2) length_session_rows)
  show "int (length (product_id_list g)) = product_id_count g"
    and "int (length (category_code_list g)) = product_id_count g"
    and "int (length (brand_list g)) = product_id_count g"
    and "int (length (category_id_list g)) = product_id_count g"
    and "int (length (et_dayofweek_sin_list g)) = product_id_count g"
    and "int (length (et_dayofweek_cos_list g)) = product_id_count g"
    and "int (length (price_log_norm_list g)) = product_id_count g"
    and "int (length (relative_price_to_avg_categ_id_list g)) = product_id_count g"
    and "int (length (product_recency_days_log_norm_list g)) = product_id_count g"
    by (simp_all add: L)
qed

theorem aggregator_length_invariant_witness:
  "map (\<lambda>g. length (product_id_list g)) (groupby_features scenario_df) = [1, 5, 25]
   \<and> map (\<lambda>g. length (price_log_norm_list g)) (groupby_features scenario_df) = [1, 5, 25]"
proof -
  have c: "map product_id_count (groupby_features scenario_df) = [1, 5, 25]"
    by (simp add: groupby_features_scenario upto_1_5 upto_1_25)
  have "\<forall>g \<in> set (groupby_features scenario_df).
          int (length (product_id_list g)) = product_id_count g
        \<and> int (length (price_log_norm_list g)) = product_id_count g"
    using aggregator_length_invariant [of scenario_df] by blast
  then have "map (\<lambda>g. int (length (product_id_list g))) (groupby_features scenario_df)
               = map product_id_count (groupby_features scenario_df)"
    and "map (\<lambda>g. int (length (price_log_norm_list g))) (groupby_features scenario_df)
               = map product_id_count (groupby_features scenario_df)"
    by simp_all
  then have "map int (map (\<lambda>g. length (product_id_list g)) (groupby_features scenario_df))
               = map int [1, 5, 25]"
    and "map int (map (\<lambda>g. length (price_log_norm_list g)) (groupby_features scenario_df))
               = map int [1, 5, 25]"
    unfolding c by (simp_all add: comp_def)
  then show ?thesis
    using inj_on_map_eq_map [of int] by (metis inj_of_nat inj_on_subset top_greatest)
qed


section \<open>Properties of the day index\<close>

lemma same_day_div:
  fixes t m :: int
  assumes "m \<le> t" and "t div 86400 = m div 86400"
  shows "(t - m) div 86400 = 0"
proof -
  have "t = 86400 * (t div 86400) + t mod 86400" "m = 86400 * (m div 86400) + m mod 86400"
    by simp_all
  then have "t - m = t mod 86400 - m mod 86400" using assms(2) by linarith
  moreover have "t mod 86400 < 86400" "0 \<le> m mod 86400" by simp_all
  ultimately have "t - m < 86400" by linarith
  moreover have "0 \<le> t - m" using assms(1) by simp
  ultimately show ?thesis by simp
qed

text \<open>
  Claim C4. The day index of a session is the number of whole days between the datetime
  of the first event of the session and the minimum of these datetimes over all
  sessions, plus 1. So a session whose first event is on the day of the earliest first
  event gets the index 1, and a session whose first event is exactly six days after the
  earliest one gets the index 7. The first-event datetime of a session is that of the
  first row of the session in timestamp order.
\<close>

theorem day_index_computation:
  fixes df :: "(int, 'a) interaction_scheme list"
  shows "\<forall>i < length (groupby_features df).
           session_id (selected_features (groupby_features df) ! i)
             = session_id (groupby_features df ! i)
         \<and> (\<exists>r rs. session_rows (session_id (groupby_features df ! i)) df = r # rs
               \<and> event_time_dt_first (groupby_features df ! i) = event_time_dt r)
         \<and> day_index (selected_features (groupby_features df) ! i)
             = (event_time_dt_first (groupby_features df ! i)
                 - Min (event_time_dt_first ` set (groupby_features df))) div 86400 + 1
         \<and> 1 \<le> day_index (selected_features (groupby_features df) ! i)
         \<and> (event_time_dt_first (groupby_features df ! i) div 86400
               = Min (event_time_dt_first ` set (groupby_features df)) div 86400
             \<longrightarrow> day_index (selected_features (groupby_features df) ! i) = 1)
         \<and> (event_time_dt_first (groupby_features df ! i)
               = Min (event_time_dt_first ` set (groupby_features df)) + 6 * 86400
             \<longrightarrow> day_index (selected_features (groupby_features df) ! i) = 7)"
proof (intro allI impI)
  fix i assume i: "i < length (groupby_features df)"
  let ?gs = "groupby_features df"
  let ?t = "event_time_dt_first (?gs ! i)"
  let ?m = "Min (event_time_dt_first ` set ?gs)"
  let ?d = "day_index (selected_features ?gs ! i)"
  have mem: "?gs ! i \<in> set ?gs" using i by simp
  have le: "?m \<le> ?t" using mem by simp
  have d: "?d = (?t - ?m) div 86400 + 1"
    by (simp add: nth_selected_features [OF i] groupby_features_trim_def)
  have sid: "session_id (selected_features ?gs ! i) = session_id (?gs ! i)"
    by (simp add: nth_selected_features [OF i] groupby_features_trim_def)
  have first: "\<exists>r rs. session_rows (session_id (?gs ! i)) df = r # rs \<and> ?t = event_time_dt r"
    using aggregate_first [OF groupby_features_mem [OF mem, THEN conjunct2]] by blast
  have pos: "1 \<le> ?d"
  proof -
    have "0 \<le> (?t - ?m) div 86400" using le by (simp add: pos_imp_zdiv_nonneg_iff)
    then show ?thesis using d by linarith
  qed
  have same: "?d = 1" if "?t div 86400 = ?m div 86400"
    using same_day_div [OF le that] d by simp
  have six: "?d = 7" if "?t = ?m + 6 * 86400"
    using d that by simp
  show "session_id (selected_features ?gs ! i) = session_id (?gs ! i)
         \<and> (\<exists>r rs. session_rows (session_id (?gs ! i)) df = r # rs \<and> ?t = event_time_dt r)
         \<and> ?d = (?t - ?m) div 86400 + 1
         \<and> 1 \<le> ?d
         \<and> (?t div 86400 = ?m div 86400 \<longrightarrow> ?d = 1)
         \<and> (?t = ?m + 6 * 86400 \<longrightarrow> ?d = 7)"
    using sid first d pos same six by blast
qed

lemma groupby_features_day_example:
  "groupby_features day_example
     = aggregate 1 [mk_interaction 1 7 1569888000]
       @ aggregate 2 [mk_interaction 2 5 1570406400, mk_interaction 2 6 1570406500]
       @ aggregate 3 [mk_interaction 3 9 1569938000]"
  by (simp add: groupby_features_def day_example_def session_rows_def)

theorem day_index_computation_witness:
  "day_index (selected_features (groupby_features day_example) ! 0) = 1
   \<and> day_index (selected_features (groupby_features day_example) ! 1) = 7
   \<and> day_index (selected_features (groupby_features day_example) ! 2) = 1"
proof -
  have len: "length (groupby_features day_example) = 3"
    by (simp add: groupby_features_day_example)
  have firsts: "map event_time_dt_first (groupby_features day_example)
                  = [1569888000, 1570406400, 1569938000]"
    by (simp add: groupby_features_day_example)
  have "event_time_dt_first ` set (groupby_features day_example)
          = set (map event_time_dt_first (groupby_features day_example))"
    by simp
  then have M: "Min (event_time_dt_first ` set (groupby_features day_example)) = 1569888000"
    unfolding firsts by simp
  have n: "event_time_dt_first (groupby_features day_example ! 0) = 1569888000"
      "event_time_dt_first (groupby_features day_example ! 1) = 1570406400"
      "event_time_dt_first (groupby_features day_example ! 2) = 1569938000"
    by (simp_all add: groupby_features_day_example)
  note T = day_index_computation [of day_example, unfolded len M, rule_format]
  have a: "day_index (selected_features (groupby_features day_example) ! 0) = 1"
    using T [of 0] n by simp
  have b: "day_index (selected_features (groupby_features day_example) ! 1) = 7"
    using T [of 1] n by simp
  have c: "day_index (selected_features (groupby_features day_example) ! 2) = 1"
    using T [of 2] n by simp
  show ?thesis using a b c by blast
qed


section \<open>Properties of the windowing\<close>

lemma ListSlice_first_padded: "ListSlice 0 n xs = first_padded n xs"
  by (simp add: ListSlice_first first_padded_def)

lemma length_first_padded [simp]: "length (first_padded n xs) = n"
  by (simp add: first_padded_def)

lemma selected_features_fields:
  assumes "s \<in> set (selected_features (groupby_features df))"
  shows "session_rows (session_id s) df \<noteq> []"
    and "product_id_count s = int (length (session_rows (session_id s) df))"
    and "product_id_list_seq s = first_padded 20 (map product_id (session_rows (session_id s) df))"
    and "category_code_list_seq s
           = first_padded 20 (map category_code (session_rows (session_id s) df))"
    and "brand_list_seq s = first_padded 20 (map brand (session_rows (session_id s) df))"
    and "category_id_list_seq s
           = first_padded 20 (map category_id (session_rows (session_id s) df))"
    and "et_dayofweek_sin_list_seq s
           = first_padded 20 (map et_dayofweek_sin (session_rows (session_id s) df))"
    and "et_dayofweek_cos_list_seq s
           = first_padded 20 (map et_dayofweek_cos (session_rows (session_id s) df))"
    and "price_log_norm_list_seq s
           = first_padded 20 (map price_log_norm (session_rows (session_id s) df))"
    and "relative_price_to_avg_categ_id_list_seq s
           = first_padded 20 (map relative_price_to_avg_categ_id (session_rows (session_id s) df))"
    and "product_recency_days_log_norm_list_seq s
           = first_padded 20 (map product_recency_days_log_norm (session_rows (session_id s) df))"
proof -
  from assms obtain g d where g: "g \<in> set (groupby_features df)" "s = groupby_features_trim g d"
    using selected_features_mem by blast
  have sid: "session_id s = session_id g" by (simp add: g(2) groupby_features_trim_def)
  note L = groupby_features_lists [OF g(1), folded sid]
  show "session_rows (session_id s) df \<noteq> []" by (rule L(1))
  show "product_id_count s = int (length (session_rows (session_id s) df))"
    using L(2) by (simp add: g(2) groupby_features_trim_def)
  show "product_id_list_seq s = first_padded 20 (map product_id (session_rows (session_id s) df))"
    using L(3) by (simp add: g(2) groupby_features_trim_def ListSlice_first_padded SESSIONS_MAX_LENGTH_def)
  show "category_code_list_seq s
           = first_padded 20 (map category_code (session_rows (session_id s) df))"
    using L(4) by (simp add: g(2) groupby_features_trim_def ListSlice_first_padded SESSIONS_MAX_LENGTH_def)
  show "brand_list_seq s = first_padded 20 (map brand (session_rows (session_id s) df))"
    using L(5) by (simp add: g(2) groupby_features_trim_def ListSlice_first_padded SESSIONS_MAX_LENGTH_def)
  show "category_id_list_seq s
           = first_padded 20 (map category_id (session_rows (session_id s) df))"
    using L(6) by (simp add: g(2) groupby_features_trim_def ListSlice_first_padded SESSIONS_MAX_LENGTH_def)
  show "et_dayofweek_sin_list_seq s
           = first_padded 20 (map et_dayofweek_sin (session_rows (session_id s) df))"
    using L(7) by (simp add: g(2) groupby_features_trim_def ListSlice_first_padded SESSIONS_MAX_LENGTH_def)
  show "et_dayofweek_cos_list_seq s
           = first_padded 20 (map et_dayofweek_cos (session_rows (session_id s) df))"
    using L(8) by (simp add: g(2) groupby_features_trim_def ListSlice_first_padded SESSIONS_MAX_LENGTH_def)
  show "price_log_norm_list_seq s
           = first_padded 20 (map price_log_norm (session_rows (session_id s) df))"
    using L(9) by (simp add: g(2) groupby_features_trim_def ListSlice_first_padded SESSIONS_MAX_LENGTH_def)
  show "relative_price_to_avg_categ_id_list_seq s
           = first_padded 20 (map relative_price_to_avg_categ_id (session_rows (session_id s) df))"
    using L(10) by (simp add: g(2) groupby_features_trim_def ListSlice_first_padded SESSIONS_MAX_LENGTH_def)
  show "product_recency_days_log_norm_list_seq s
           = first_padded 20 (map product_recency_days_log_norm (session_rows (session_id s) df))"
    using L(11) by (simp add: g(2) groupby_features_trim_def ListSlice_first_padded SESSIONS_MAX_LENGTH_def)
qed

lemma map_session_id_workflow:
  "map session_id (workflow df)
     = filter (\<lambda>k. 2 \<le> length (filter (\<lambda>r. user_session r = k) df))
         (sort (remdups (map user_session df)))"
proof -
  let ?sel = "selected_features (groupby_features df)"
  let ?P = "\<lambda>k. 2 \<le> length (filter (\<lambda>r. user_session r = k) df)"
  have "filter (\<lambda>s. product_id_count s \<ge> MINIMUM_SESSION_LENGTH) ?sel
          = filter (?P \<circ> session_id) ?sel"
  proof (rule filter_cong [OF refl])
    fix s assume "s \<in> set ?sel"
    from selected_features_fields(2) [OF this]
    show "(product_id_count s \<ge> MINIMUM_SESSION_LENGTH) = (?P \<circ> session_id) s"
      by (simp add: MINIMUM_SESSION_LENGTH_def length_session_rows)
  qed
  then have "map session_id (workflow df) = filter ?P (map session_id ?sel)"
    by (simp add: workflow_def filtered_sessions_def filter_map)
  then show ?thesis
    by (simp add: map_session_id_selected_features map_session_id_groupby_features)
qed


text \<open>
  Claim C1. The output of the workflow has one record for each session of the frame with
  at least 2 rows and none for any other session. In the record of a session, every
  list-valued feature is the sequence of the session in timestamp order cut to its first
  \<open>min(count, 20)\<close> entries and padded on the right with 0 to the length 20, and the
  count is the number of rows of the session before the cut. For the sessions with the
  counts 1, 5 and 25 there are exactly 2 records; the lists of the session with 5 rows
  end in 15 zeros and the lists of the session with 25 rows are its first 20 entries.
\<close>

theorem sequence_windower_contract:
  fixes df :: "(int, 'a) interaction_scheme list"
  shows "map session_id (workflow df)
           = filter (\<lambda>k. 2 \<le> length (filter (\<lambda>r. user_session r = k) df))
               (sort (remdups (map user_session df)))
       \<and> distinct (map session_id (workflow df))
       \<and> (\<forall>k. length (filter (\<lambda>r. user_session r = k) df) < 2
              \<longrightarrow> k \<notin> session_id ` set (workflow df))
       \<and> (\<forall>s \<in> set (workflow df).
             2 \<le> product_id_count s
           \<and> product_id_count s = int (length (filter (\<lambda>r. user_session r = session_id s) df))
           \<and> sorted (map event_time_ts (session_rows (session_id s) df))
           \<and> mset (session_rows (session_id s) df)
               = mset (filter (\<lambda>r. user_session r = session_id s) df)
           \<and> product_id_list_seq s
               = take (min (nat (product_id_count s)) 20)
                   (map product_id (session_rows (session_id s) df))
                 @ replicate (20 - min (nat (product_id_count s)) 20) 0
           \<and> product_id_list_seq s
               = first_padded 20 (map product_id (session_rows (session_id s) df))
           \<and> category_code_list_seq s
               = first_padded 20 (map category_code (session_rows (session_id s) df))
           \<and> brand_list_seq s = first_padded 20 (map brand (session_rows (session_id s) df))
           \<and> category_id_list_seq s
               = first_padded 20 (map category_id (session_rows (session_id s) df))
           \<and> et_dayofweek_sin_list_seq s
               = first_padded 20 (map et_dayofweek_sin (session_rows (session_id s) df))
           \<and> et_dayofweek_cos_list_seq s
               = first_padded 20 (map et_dayofweek_cos (session_rows (session_id s) df))
           \<and> price_log_norm_list_seq s
               = first_padded 20 (map price_log_norm (session_rows (session_id s) df))
           \<and> relative_price_to_avg_categ_id_list_seq s
               = first_padded 20
                   (map relative_price_to_avg_categ_id (session_rows (session_id s) df))
           \<and> product_recency_days_log_norm_list_seq s
               = first_padded 20
                   (map product_recency_days_log_norm (session_rows (session_id s) df))
           \<and> length (product_id_list_seq s) = 20
           \<and> length (category_code_list_seq s) = 20
           \<and> length (brand_list_seq s) = 20
           \<and> length (category_id_list_seq s) = 20
           \<and> length (et_dayofweek_sin_list_seq s) = 20
           \<and> length (et_dayofweek_cos_list_seq s) = 20
           \<and> length (price_log_norm_list_seq s) = 20
           \<and> length (relative_price_to_avg_categ_id_list_seq s) = 20
           \<and> length (product_recency_days_log_norm_list_seq s) = 20)
       \<and> length (workflow scenario_df) = 2
       \<and> map product_id_count (workflow scenario_df) = [5, 25]
       \<and> map product_id_list_seq (workflow scenario_df)
           = [[21, 22, 23, 24, 25, 0, 0, 0, 0, 0, 0, 0, 0, 0, 0, 0, 0, 0, 0, 0],
              [101, 102, 103, 104, 105, 106, 107, 108, 109, 110,
               111, 112, 113, 114, 115, 116, 117, 118, 119, 120]]
       \<and> map price_log_norm_list_seq (workflow scenario_df)
           = [[21, 22, 23, 24, 25, 0, 0, 0, 0, 0, 0, 0, 0, 0, 0, 0, 0, 0, 0, 0],
              [101, 102, 103, 104, 105, 106, 107, 108, 109, 110,
               111, 112, 113, 114, 115, 116, 117, 118, 119, 120]]"
proof -
  let ?P = "\<lambda>k. 2 \<le> length (filter (\<lambda>r. user_session r = k) df)"
  have ids: "map session_id (workflow df) = filter ?P (sort (remdups (map user_session df)))"
    by (rule map_session_id_workflow)
  have dist: "distinct (map session_id (workflow df))"
    unfolding ids by simp
  have short: "k \<notin> session_id ` set (workflow df)"
    if "length (filter (\<lambda>r. user_session r = k) df) < 2" for k
  proof
    assume "k \<in> session_id ` set (workflow df)"
    then have "k \<in> set (map session_id (workflow df))" by simp
    then have "?P k" unfolding ids by simp
    with that show False by simp
  qed
  have recs: "2 \<le> product_id_count s
           \<and> product_id_count s = int (length (filter (\<lambda>r. user_session r = session_id s) df))
           \<and> sorted (map event_time_ts (session_rows (session_id s) df))
           \<and> mset (session_rows (session_id s) df)
               = mset (filter (\<lambda>r. user_session r = session_id s) df)
           \<and> product_id_list_seq s
               = take (min (nat (product_id_count s)) 20)
                   (map product_id (session_rows (session_id s) df))
                 @ replicate (20 - min (nat (product_id_count s)) 20) 0
           \<and> product_id_list_seq s
               = first_padded 20 (map product_id (session_rows (session_id s) df))
           \<and> category_code_list_seq s
               = first_padded 20 (map category_code (session_rows (session_id s) df))
           \<and> brand_list_seq s = first_padded 20 (map brand (session_rows (session_id s) df))
           \<and> category_id_list_seq s
               = first_padded 20 (map category_id (session_rows (session_id s) df))
           \<and> et_dayofweek_sin_list_seq s
               = first_padded 20 (map et_dayofweek_sin (session_rows (session_id s) df))
           \<and> et_dayofweek_cos_list_seq s
               = first_padded 20 (map et_dayofweek_cos (session_rows (session_id s) df))
           \<and> price_log_norm_list_seq s
               = first_padded 20 (map price_log_norm (session_rows (session_id s) df))
           \<and> relative_price_to_avg_categ_id_list_seq s
               = first_padded 20
                   (map relative_price_to_avg_categ_id (session_rows (session_id s) df))
           \<and> product_recency_days_log_norm_list_seq s
               = first_padded 20
                   (map product_recency_days_log_norm (session_rows (session_id s) df))
           \<and> length (product_id_list_seq s) = 20
           \<and> length (category_code_list_seq s) = 20
           \<and> length (brand_list_seq s) = 20
           \<and> length (category_id_list_seq s) = 20
           \<and> length (et_dayofweek_sin_list_seq s) = 20
           \<and> length (et_dayofweek_cos_list_seq s) = 20
           \<and> length (price_log_norm_list_seq s) = 20
           \<and> length (relative_price_to_avg_categ_id_list_seq s) = 20
           \<and> length (product_recency_days_log_norm_list_seq s) = 20"
    if s: "s \<in> set (workflow df)" for s
  proof -
    from s have sel: "s \<in> set (selected_features (groupby_features df))"
      and two: "2 \<le> product_id_count s"
      by (simp_all add: workflow_def filtered_sessions_def MINIMUM_SESSION_LENGTH_def)
    note F = selected_features_fields [OF sel]
    have cnt: "product_id_count s
                 = int (length (filter (\<lambda>r. user_session r = session_id s) df))"
      by (simp add: F(2) length_session_rows)
    have srt: "sorted (map event_time_ts (session_rows (session_id s) df))"
      by (simp add: session_rows_def)
    have ms: "mset (session_rows (session_id s) df)
               = mset (filter (\<lambda>r. user_session r = session_id s) df)"
      by (simp add: session_rows_def)
    have expl: "product_id_list_seq s
               = take (min (nat (product_id_count s)) 20)
                   (map product_id (session_rows (session_id s) df))
                 @ replicate (20 - min (nat (product_id_count s)) 20) 0"
      by (simp add: F(3) F(2) first_padded_def)
    have len: "length (product_id_list_seq s) = 20"
        "length (category_code_list_seq s) = 20"
        "length (brand_list_seq s) = 20"
        "length (category_id_list_seq s) = 20"
        "length (et_dayofweek_sin_list_seq s) = 20"
        "length (et_dayofweek_cos_list_seq s) = 20"
        "length (price_log_norm_list_seq s) = 20"
        "length (relative_price_to_avg_categ_id_list_seq s) = 20"
        "length (product_recency_days_log_norm_list_seq s) = 20"
      unfolding F(3-11) by simp_all
    show ?thesis
      by (insert two cnt srt ms expl F(3-11) len, intro conjI; assumption)
  qed
  have scen: "length (workflow scenario_df) = 2"
    using workflow_scenario(1) [THEN arg_cong, of length] by simp
  show ?thesis
    using ids dist short recs scen workflow_scenario(2-4) by blast
qed

theorem sequence_windower_contract_witness:
  "map session_id (workflow scenario_df) = [2, 3]
   \<and> 1 \<notin> session_id ` set (workflow scenario_df)
   \<and> length (product_id_list_seq (workflow scenario_df ! 0)) = 20"
proof -
  note T = sequence_windower_contract [of scenario_df]
  have c: "length (filter (\<lambda>r. user_session r = 1) scenario_df) = 1"
      "length (filter (\<lambda>r. user_session r = 2) scenario_df) = 5"
      "length (filter (\<lambda>r. user_session r = 3) scenario_df) = 25"
    by (simp_all add: scenario_df_def upto_1_5 upto_1_25)
  from T have "map session_id (workflow scenario_df)
           = filter (\<lambda>k. 2 \<le> length (filter (\<lambda>r. user_session r = k) scenario_df))
               (sort (remdups (map user_session scenario_df)))"
    by blast
  then have a: "map session_id (workflow scenario_df) = [2, 3]"
    by (simp add: keys_scenario c)
  from T have "\<forall>k. length (filter (\<lambda>r. user_session r = k) scenario_df) < 2
              \<longrightarrow> k \<notin> session_id ` set (workflow scenario_df)"
    by blast
  from this [rule_format, of 1] have b: "1 \<notin> session_id ` set (workflow scenario_df)"
    by (simp add: c)
  have "length (workflow scenario_df) = 2"
    using a [THEN arg_cong, of length] by simp
  then have "workflow scenario_df ! 0 \<in> set (workflow scenario_df)" by simp
  moreover from T have "\<forall>s \<in> set (workflow scenario_df). length (product_id_list_seq s) = 20"
    by blast
  ultimately have d: "length (product_id_list_seq (workflow scenario_df ! 0)) = 20"
    by blast
  show ?thesis using a b d by blast
qed

end
